theory Spec2Isabelle
  imports Main
begin

section \<open>The maintenance app: force publishing a course\<close>

text \<open>
  A shallow embedding of \<^verbatim>\<open>cms/djangoapps/maintenance/views.py\<close>: the base view's
  \<^verbatim>\<open>validate_course_key\<close> and \<^verbatim>\<open>ForcePublishCourseView.post\<close>. The view mutates
  its own \<^verbatim>\<open>context\<close> dictionary and calls into the modulestore; both are threaded
  through explicitly. Every call the view makes to a collaborator is also appended to a
  call trace, so that statements about the order of the steps can be made.
\<close>

subsection \<open>Keys, branches and versions\<close>

text \<open>\<^verbatim>\<open>ModuleStoreEnum.BranchName\<close>: the two named branches of a course.\<close>

datatype branch_name = BranchName_draft | BranchName_published

text \<open>
  A parsed course key: the identity of the course and, once \<^verbatim>\<open>for_branch\<close> has been
  applied, the branch it is qualified with.
\<close>

record course_locator =
  org_course_run :: string
  branch :: "branch_name option"

definition for_branch :: "course_locator \<Rightarrow> branch_name \<Rightarrow> course_locator" where
  "for_branch k b = k\<lparr>branch := Some b\<rparr>"

text \<open>
  \<^verbatim>\<open>CourseKey.from_string\<close> belongs to the opaque-keys library, which is no part of this
  repository. The model takes the parser as a parameter: it returns \<open>None\<close> where the
  library raises \<^verbatim>\<open>InvalidKeyError\<close>.
\<close>

type_synonym key_parser = "string \<Rightarrow> course_locator option"

text \<open>A content version is an opaque identifier.\<close>

type_synonym version = nat

text \<open>
  The dictionary with the keys \<^verbatim>\<open>'draft-branch'\<close> and \<^verbatim>\<open>'published-branch'\<close> that
  \<^verbatim>\<open>get_course_versions\<close> and \<^verbatim>\<open>force_publish_course\<close> hand to the view.
\<close>

record versions =
  draft_branch :: version
  published_branch :: version

subsection \<open>The modulestore\<close>

text \<open>
  The two storage variants: an old mongo course has no branch pointers, a split course
  has one pointer per branch.
\<close>

datatype course_entry = OldMongo | Split versions

record modulestore_state =
  course_index :: "string \<rightharpoonup> course_entry"
  structures :: "version set"

text \<open>
  Modelled from the spec: \<^verbatim>\<open>modulestore().has_course\<close> is not under src/. The spec's
  \<^verbatim>\<open>hasCourse\<close> is an existence check that never fails.
\<close>

definition has_course :: "modulestore_state \<Rightarrow> course_locator \<Rightarrow> bool" where
  "has_course st k = (course_index st (org_course_run k) \<noteq> None)"

text \<open>
  Modelled from the spec: \<^verbatim>\<open>modulestore()._get_modulestore_for_courselike\<close> and the
  stores it returns are not under src/. The view probes the returned store with
  \<^verbatim>\<open>hasattr(source_store, 'force_publish_course')\<close>; the spec's
  \<^verbatim>\<open>supportsBranchPointerUpdate\<close> is that capability probe, false for the legacy,
  non-versioned backend.
\<close>

definition supportsBranchPointerUpdate :: "modulestore_state \<Rightarrow> course_locator \<Rightarrow> bool" where
  "supportsBranchPointerUpdate st k =
     (case course_index st (org_course_run k) of
        Some (Split v) \<Rightarrow> True
      | Some OldMongo \<Rightarrow> False
      | None \<Rightarrow> False)"

text \<open>
  Modelled from the spec: \<^verbatim>\<open>getBranchVersions\<close> reads the branch-version map of a
  course and fails when the identity does not resolve to an existing course.
\<close>

definition getBranchVersions :: "modulestore_state \<Rightarrow> course_locator \<Rightarrow> versions option" where
  "getBranchVersions st k =
     (case course_index st (org_course_run k) of
        Some (Split v) \<Rightarrow> Some v
      | Some OldMongo \<Rightarrow> None
      | None \<Rightarrow> None)"

text \<open>
  Modelled from the spec: \<^verbatim>\<open>contentstore.management.commands.utils.get_course_versions\<close>
  is not under src/. The view calls it with the text of the course id, which it parses
  again before it reads the branch versions.
\<close>

definition get_course_versions ::
  "key_parser \<Rightarrow> modulestore_state \<Rightarrow> string option \<Rightarrow> versions option" where
  "get_course_versions from_string st course_id =
     (case course_id of
        None \<Rightarrow> None
      | Some s \<Rightarrow>
          (case from_string s of
             None \<Rightarrow> None
           | Some k \<Rightarrow> getBranchVersions st k))"

datatype store_error = UnsupportedOperation | VersionNotFound | CourseNotFound

definition set_branch :: "versions \<Rightarrow> branch_name \<Rightarrow> version \<Rightarrow> versions" where
  "set_branch v b t =
     (case b of
        BranchName_draft \<Rightarrow> v\<lparr>draft_branch := t\<rparr>
      | BranchName_published \<Rightarrow> v\<lparr>published_branch := t\<rparr>)"

text \<open>
  Modelled from the spec: \<^verbatim>\<open>moveBranchPointer(course, branch, targetVersion, actor)\<close>
  repoints \<open>branch\<close> to \<open>targetVersion\<close> and returns the map after the update. It fails
  with \<open>UnsupportedOperation\<close> when the backend cannot move branch pointers and with
  \<open>VersionNotFound\<close> when the target version does not exist; a failed move leaves the
  store as it was.
\<close>

definition moveBranchPointer ::
  "modulestore_state \<Rightarrow> course_locator \<Rightarrow> branch_name \<Rightarrow> version \<Rightarrow> string
     \<Rightarrow> (store_error + versions) \<times> modulestore_state" where
  "moveBranchPointer st k b target actor =
     (case course_index st (org_course_run k) of
        None \<Rightarrow> (Inl CourseNotFound, st)
      | Some OldMongo \<Rightarrow> (Inl UnsupportedOperation, st)
      | Some (Split v) \<Rightarrow>
          if target \<notin> structures st then (Inl VersionNotFound, st)
          else
            (let v' = set_branch v b target
             in (Inr v', st\<lparr>course_index := (course_index st)(org_course_run k \<mapsto> Split v')\<rparr>)))"

text \<open>
  Modelled from the spec: the split store's \<^verbatim>\<open>force_publish_course\<close> is not under
  src/. With \<^verbatim>\<open>commit=True\<close>, as the view calls it, it moves the published pointer
  to the version the draft branch points to and returns the updated map; when the
  move fails it returns no map.
\<close>

definition force_publish_course ::
  "modulestore_state \<Rightarrow> course_locator \<Rightarrow> string \<Rightarrow> versions option \<times> modulestore_state" where
  "force_publish_course st k user_id =
     (case getBranchVersions st k of
        None \<Rightarrow> (None, st)
      | Some current \<Rightarrow>
          (case moveBranchPointer st k BranchName_published (draft_branch current) user_id of
             (Inl e, st') \<Rightarrow> (None, st')
           | (Inr updated, st') \<Rightarrow> (Some updated, st')))"

subsection \<open>Requests, the context and the call trace\<close>

text \<open>
  The part of the request the view reads: the two POST parameters (\<open>None\<close> when the
  parameter is absent, as \<^verbatim>\<open>request.POST.get\<close> returns it) and the user.
\<close>

record request =
  POST_course_id :: "string option"
  POST_dry_run :: "string option"
  user :: string

text \<open>Python's truthiness of a value that is \<^verbatim>\<open>None\<close> or a string.\<close>

definition bool_str :: "string option \<Rightarrow> bool" where
  "bool_str x = (case x of None \<Rightarrow> False | Some s \<Rightarrow> s \<noteq> [])"

record form_data =
  course_id :: "string option"
  is_dry_run :: bool

text \<open>
  The view's \<^verbatim>\<open>context\<close>. \<^verbatim>\<open>current_versions\<close> and \<^verbatim>\<open>updated_versions\<close> start as
  the empty list, here \<open>None\<close>, and are replaced by a version dictionary. The
  \<^verbatim>\<open>command\<close> entry is a constant of the view and is left out.
\<close>

record view_context =
  form_data :: form_data
  error :: bool
  msg :: string
  current_versions :: "versions option"
  updated_versions :: "versions option"

text \<open>\<^verbatim>\<open>ForcePublishCourseView.__init__\<close> on top of \<^verbatim>\<open>MaintenanceBaseView.__init__\<close>.\<close>

definition init_context :: view_context where
  "init_context =
     \<lparr>form_data = \<lparr>course_id = Some [], is_dry_run = True\<rparr>,
      error = False,
      msg = [],
      current_versions = None,
      updated_versions = None\<rparr>"

datatype course_key_error = empty_course_key | invalid_course_key | course_key_not_found

fun COURSE_KEY_ERROR_MESSAGES :: "course_key_error \<Rightarrow> string" where
  "COURSE_KEY_ERROR_MESSAGES empty_course_key = ''Please provide course id.''"
| "COURSE_KEY_ERROR_MESSAGES invalid_course_key = ''Invalid course key.''"
| "COURSE_KEY_ERROR_MESSAGES course_key_not_found = ''No matching course found.''"

text \<open>
  The exceptions of the view. \<open>TypeError\<close> and \<open>UnboundLocalError\<close> are what Python
  raises where the view subscripts \<^verbatim>\<open>None\<close> or reads a local it never bound; they
  are not caught and leave \<^verbatim>\<open>post\<close>.
\<close>

datatype exn =
    InvalidKeyError
  | ItemNotFoundError string
  | Exception string
  | TypeError
  | UnboundLocalError

fun message :: "exn \<Rightarrow> string" where
  "message (ItemNotFoundError m) = m"
| "message (Exception m) = m"
| "message InvalidKeyError = []"
| "message TypeError = []"
| "message UnboundLocalError = []"

datatype call =
    Call_from_string string
  | Call_has_course course_locator
  | Call_get_modulestore_for_courselike course_locator
  | Call_get_course_versions "string option"
  | Call_force_publish_course course_locator string

record world =
  modulestore :: modulestore_state
  calls :: "call list"

definition called :: "call \<Rightarrow> world \<Rightarrow> world" where
  "called c w = w\<lparr>calls := calls w @ [c]\<rparr>"

subsection \<open>The views\<close>

text \<open>
  \<^verbatim>\<open>MaintenanceBaseView.validate_course_key\<close>: \<^verbatim>\<open>if not course_key\<close> holds for
  \<^verbatim>\<open>None\<close> and for the empty string only.
\<close>

definition validate_course_key ::
  "key_parser \<Rightarrow> string option \<Rightarrow> branch_name \<Rightarrow> world \<Rightarrow> (exn + course_locator) \<times> world" where
  "validate_course_key from_string course_key br w =
     (if \<not> bool_str course_key
      then (Inl (Exception (COURSE_KEY_ERROR_MESSAGES empty_course_key)), w)
      else
        (case course_key of
           None \<Rightarrow> (Inl TypeError, w)
         | Some s \<Rightarrow>
             (let w1 = called (Call_from_string s) w
              in case from_string s of
                   None \<Rightarrow> (Inl InvalidKeyError, w1)
                 | Some course_usage_key \<Rightarrow>
                     (let w2 = called (Call_has_course course_usage_key) w1
                      in if \<not> has_course (modulestore w2) course_usage_key
                         then (Inl (ItemNotFoundError
                                 (COURSE_KEY_ERROR_MESSAGES course_key_not_found)), w2)
                         else (Inr (for_branch course_usage_key br), w2)))))"

text \<open>
  The first step of \<^verbatim>\<open>ForcePublishCourseView.post\<close>: the two request parameters
  are read and stored as \<^verbatim>\<open>form_data\<close> in the context of a fresh view.
\<close>

definition post_form_data :: "request \<Rightarrow> view_context" where
  "post_form_data req =
     (let course_id = POST_course_id req;
          is_dry_run = bool_str (POST_dry_run req)
      in init_context\<lparr>form_data := \<lparr>course_id = course_id, is_dry_run = is_dry_run\<rparr>\<rparr>)"

text \<open>
  \<^verbatim>\<open>ForcePublishCourseView.post\<close>. The \<^verbatim>\<open>logging.info\<close> calls change neither the
  context nor the store and are left out. The result is the context the response is
  rendered from, or the exception that leaves the view.
\<close>

definition post :: "key_parser \<Rightarrow> request \<Rightarrow> world \<Rightarrow> (exn + view_context) \<times> world" where
  "post from_string req w =
     (let course_id = POST_course_id req;
          is_dry_run = bool_str (POST_dry_run req);
          ctx = post_form_data req;
          (r, w1) = validate_course_key from_string course_id BranchName_draft w;
          ctx1 = (case r of
                    Inr k \<Rightarrow> ctx
                  | Inl InvalidKeyError \<Rightarrow>
                      ctx\<lparr>error := True, msg := COURSE_KEY_ERROR_MESSAGES invalid_course_key\<rparr>
                  | Inl e \<Rightarrow> ctx\<lparr>error := True, msg := message e\<rparr>)
      in if error ctx1 then (Inr ctx1, w1)
         else
           (case r of
              Inl e \<Rightarrow> (Inl UnboundLocalError, w1)
            | Inr course_usage_key \<Rightarrow>
                (let w2 = called (Call_get_modulestore_for_courselike course_usage_key) w1
                 in if \<not> supportsBranchPointerUpdate (modulestore w2) course_usage_key
                    then (Inr (ctx1\<lparr>msg :=
                            ''Force publish course does not support old mongo style courses.''\<rparr>),
                          w2)
                    else
                      (let w3 = called (Call_get_course_versions course_id) w2
                       in case get_course_versions from_string (modulestore w3) course_id of
                            None \<Rightarrow> (Inl TypeError, w3)
                          | Some current \<Rightarrow>
                              if published_branch current = draft_branch current
                              then (Inr (ctx1\<lparr>msg := ''Course is already in published state.''\<rparr>),
                                    w3)
                              else
                                (let ctx2 = ctx1\<lparr>current_versions := Some current\<rparr>
                                 in if is_dry_run then (Inr ctx2, w3)
                                    else
                                      (let w4 = called (Call_force_publish_course
                                                          course_usage_key (user req)) w3;
                                           (updated, st') = force_publish_course (modulestore w4)
                                                              course_usage_key (user req);
                                           w5 = w4\<lparr>modulestore := st'\<rparr>
                                       in case updated of
                                            None \<Rightarrow>
                                              (Inr (ctx2\<lparr>msg := ''Could not publish course.''\<rparr>),
                                               w5)
                                          | Some u \<Rightarrow>
                                              (Inr (ctx2\<lparr>updated_versions := Some u\<rparr>),
                                               w5)))))))"

subsection \<open>Fixtures\<close>

text \<open>
  A parser and a store for concrete runs, after the data of the test suite: the text
  \<^verbatim>\<open>edx\<close> is no course key and \<^verbatim>\<open>course-v1:e+d+X\<close> is a key without a course.
  The store holds a split course with unpublished changes, a split course that is
  published, a split course whose draft pointer names a version that is gone, and an
  old mongo course.
\<close>

definition test_from_string :: key_parser where
  "test_from_string s =
     (if s \<in> {''course-v1:e+d+X'', ''course-v1:org+split+run'', ''course-v1:org+done+run'',
               ''course-v1:org+gone+run'', ''org/mongo/run''}
      then Some \<lparr>org_course_run = s, branch = None\<rparr>
      else None)"

definition test_store :: modulestore_state where
  "test_store =
     \<lparr>course_index =
        [''course-v1:org+split+run'' \<mapsto> Split \<lparr>draft_branch = 1, published_branch = 0\<rparr>,
         ''course-v1:org+done+run'' \<mapsto> Split \<lparr>draft_branch = 2, published_branch = 2\<rparr>,
         ''course-v1:org+gone+run'' \<mapsto> Split \<lparr>draft_branch = 7, published_branch = 0\<rparr>,
         ''org/mongo/run'' \<mapsto> OldMongo],
      structures = {0, 1, 2}\<rparr>"

definition test_world :: world where
  "test_world = \<lparr>modulestore = test_store, calls = []\<rparr>"

definition test_request :: "string option \<Rightarrow> string option \<Rightarrow> request" where
  "test_request cid dry = \<lparr>POST_course_id = cid, POST_dry_run = dry, user = ''staff''\<rparr>"

section \<open>Properties of the force-publish view\<close>

lemmas post_defs = post_def validate_course_key_def post_form_data_def Let_def called_def
  bool_str_def has_course_def supportsBranchPointerUpdate_def get_course_versions_def
  getBranchVersions_def force_publish_course_def moveBranchPointer_def set_branch_def
  for_branch_def init_context_def

lemmas test_defs = test_from_string_def test_store_def test_world_def test_request_def

subsection \<open>The paths through the view\<close>

text \<open>
  The context after the form data has been stored is the initial one in every other
  entry.
\<close>

lemma post_form_data_simps:
  "form_data (post_form_data req) =
     \<lparr>course_id = POST_course_id req, is_dry_run = bool_str (POST_dry_run req)\<rparr>"
  "error (post_form_data req) = False"
  "msg (post_form_data req) = []"
  "current_versions (post_form_data req) = None"
  "updated_versions (post_form_data req) = None"
  by (simp_all add: post_form_data_def init_context_def)

text \<open>
  One equation for each way through \<^verbatim>\<open>post\<close>: the course id is missing or empty, it
  does not parse, it names no course, it names an old mongo course, it names a split
  course.
\<close>

lemma post_empty:
  "\<not> bool_str (POST_course_id req) \<Longrightarrow>
   post from_string req w =
     (Inr ((post_form_data req)\<lparr>error := True, msg := ''Please provide course id.''\<rparr>), w)"
  by (simp add: post_def validate_course_key_def post_form_data_def init_context_def Let_def)

lemma post_invalid:
  "POST_course_id req = Some s \<Longrightarrow> s \<noteq> [] \<Longrightarrow> from_string s = None \<Longrightarrow>
   post from_string req w =
     (Inr ((post_form_data req)\<lparr>error := True, msg := ''Invalid course key.''\<rparr>),
      w\<lparr>calls := calls w @ [Call_from_string s]\<rparr>)"
  by (simp add: post_def validate_course_key_def post_form_data_def init_context_def Let_def
      called_def bool_str_def)

lemma post_not_found:
  "POST_course_id req = Some s \<Longrightarrow> s \<noteq> [] \<Longrightarrow> from_string s = Some k \<Longrightarrow>
   course_index (modulestore w) (org_course_run k) = None \<Longrightarrow>
   post from_string req w =
     (Inr ((post_form_data req)\<lparr>error := True, msg := ''No matching course found.''\<rparr>),
      w\<lparr>calls := calls w @ [Call_from_string s, Call_has_course k]\<rparr>)"
  by (simp add: post_def validate_course_key_def post_form_data_def init_context_def Let_def
      called_def bool_str_def has_course_def)

lemma post_old_mongo:
  "POST_course_id req = Some s \<Longrightarrow> s \<noteq> [] \<Longrightarrow> from_string s = Some k \<Longrightarrow>
   course_index (modulestore w) (org_course_run k) = Some OldMongo \<Longrightarrow>
   post from_string req w =
     (Inr ((post_form_data req)\<lparr>msg :=
        ''Force publish course does not support old mongo style courses.''\<rparr>),
      w\<lparr>calls := calls w @
         [Call_from_string s, Call_has_course k,
          Call_get_modulestore_for_courselike (for_branch k BranchName_draft)]\<rparr>)"
  by (simp add: post_def validate_course_key_def post_form_data_def init_context_def Let_def
      called_def bool_str_def has_course_def supportsBranchPointerUpdate_def for_branch_def)

lemma post_split:
  "POST_course_id req = Some s \<Longrightarrow> s \<noteq> [] \<Longrightarrow> from_string s = Some k \<Longrightarrow>
   course_index (modulestore w) (org_course_run k) = Some (Split v) \<Longrightarrow>
   post from_string req w =
     (let w3 = w\<lparr>calls := calls w @
                 [Call_from_string s, Call_has_course k,
                  Call_get_modulestore_for_courselike (for_branch k BranchName_draft),
                  Call_get_course_versions (Some s)]\<rparr>;
          w4 = w3\<lparr>calls := calls w3 @
                 [Call_force_publish_course (for_branch k BranchName_draft) (user req)]\<rparr>
      in if published_branch v = draft_branch v
         then (Inr ((post_form_data req)\<lparr>msg := ''Course is already in published state.''\<rparr>), w3)
         else if bool_str (POST_dry_run req)
         then (Inr ((post_form_data req)\<lparr>current_versions := Some v\<rparr>), w3)
         else if draft_branch v \<notin> structures (modulestore w)
         then (Inr ((post_form_data req)\<lparr>current_versions := Some v,
                      msg := ''Could not publish course.''\<rparr>), w4)
         else (Inr ((post_form_data req)\<lparr>current_versions := Some v,
                      updated_versions := Some (v\<lparr>published_branch := draft_branch v\<rparr>)\<rparr>),
               w4\<lparr>modulestore := (modulestore w)\<lparr>course_index :=
                  (course_index (modulestore w))(org_course_run k \<mapsto>
                     Split (v\<lparr>published_branch := draft_branch v\<rparr>))\<rparr>\<rparr>))"
  by (simp add: post_defs)

lemma post_cases:
  obtains (empty) "\<not> bool_str (POST_course_id req)"
  | (invalid) s where "POST_course_id req = Some s" "s \<noteq> []" "from_string s = None"
  | (not_found) s k where "POST_course_id req = Some s" "s \<noteq> []" "from_string s = Some k"
      "course_index (modulestore w) (org_course_run k) = None"
  | (old_mongo) s k where "POST_course_id req = Some s" "s \<noteq> []" "from_string s = Some k"
      "course_index (modulestore w) (org_course_run k) = Some OldMongo"
  | (split) s k v where "POST_course_id req = Some s" "s \<noteq> []" "from_string s = Some k"
      "course_index (modulestore w) (org_course_run k) = Some (Split v)"
proof (cases "POST_course_id req")
  case None
  then show ?thesis using empty by (simp add: bool_str_def)
next
  case (Some s)
  show ?thesis
  proof (cases "s = []")
    case True
    with Some show ?thesis using empty by (simp add: bool_str_def)
  next
    case False
    show ?thesis
    proof (cases "from_string s")
      case None
      with Some False show ?thesis using invalid by blast
    next
      case k: (Some k)
      show ?thesis
      proof (cases "course_index (modulestore w) (org_course_run k)")
        case None
        with Some False k show ?thesis using not_found by blast
      next
        case e: (Some e)
        show ?thesis
        proof (cases e)
          case OldMongo
          with Some False k e show ?thesis using old_mongo by blast
        next
          case (Split v)
          with Some False k e show ?thesis using split by blast
        qed
      qed
    qed
  qed
qed

text \<open>
  The view always renders a context: with this store no exception leaves \<^verbatim>\<open>post\<close>.
\<close>

lemma post_always_renders: "\<exists>ctx. fst (post from_string req w) = Inr ctx"
proof (cases rule: post_cases [where req = req and from_string = from_string and w = w])
  case empty
  then show ?thesis by (simp add: post_empty)
next
  case (invalid s)
  then show ?thesis by (simp add: post_invalid)
next
  case (not_found s k)
  then show ?thesis by (simp add: post_not_found)
next
  case (old_mongo s k)
  then show ?thesis by (simp add: post_old_mongo)
next
  case (split s k v)
  then show ?thesis by (simp add: post_split Let_def)
qed

subsection \<open>The claims\<close>




text \<open>
  Claim C3. With the same course and differing branch versions, a request whose dry-run
  parameter is a non-empty string gets the current branch versions reported and nothing
  else: the store after the call is the store before it, and a read of the branch
  versions after the call returns what the read before the call returned.
\<close>

theorem dry_run_reports_and_mutates_nothing:
  assumes "bool_str (POST_course_id req)"
    and "get_course_versions from_string (modulestore w) (POST_course_id req) = Some v"
    and "draft_branch v \<noteq> published_branch v"
    and "bool_str (POST_dry_run req)"
  shows "fst (post from_string req w) = Inr ((post_form_data req)\<lparr>current_versions := Some v\<rparr>)
       \<and> modulestore (snd (post from_string req w)) = modulestore w
       \<and> get_course_versions from_string (modulestore (snd (post from_string req w)))
           (POST_course_id req) = Some v"
  using assms
  by (auto simp: post_defs split: option.splits course_entry.splits)

theorem dry_run_reports_and_mutates_nothing_witness:
  "fst (post test_from_string (test_request (Some ''course-v1:org+split+run'') (Some ''on''))
          test_world) =
     Inr ((post_form_data (test_request (Some ''course-v1:org+split+run'') (Some ''on'')))
            \<lparr>current_versions := Some \<lparr>draft_branch = 1, published_branch = 0\<rparr>\<rparr>)
   \<and> modulestore (snd (post test_from_string
         (test_request (Some ''course-v1:org+split+run'') (Some ''on'')) test_world)) = test_store
   \<and> get_course_versions test_from_string
        (modulestore (snd (post test_from_string
           (test_request (Some ''course-v1:org+split+run'') (Some ''on'')) test_world)))
        (Some ''course-v1:org+split+run'') = Some \<lparr>draft_branch = 1, published_branch = 0\<rparr>"
  using dry_run_reports_and_mutates_nothing
    [of "test_request (Some ''course-v1:org+split+run'') (Some ''on'')" test_from_string
      test_world "\<lparr>draft_branch = 1, published_branch = 0\<rparr>"]
  by (simp add: test_defs bool_str_def get_course_versions_def getBranchVersions_def)

text \<open>
  Claim C2. When the branch versions read for the course are equal, the view answers
  \<^verbatim>\<open>Course is already in published state.\<close> and leaves the store as it was, whatever the
  dry-run parameter is (the request is arbitrary). And after a call that reported updated
  versions, a second call for the same course id, with any dry-run parameter, gets that
  same answer and changes nothing.
\<close>

theorem already_published_is_noop:
  "(bool_str (POST_course_id req)
      \<and> get_course_versions from_string (modulestore w) (POST_course_id req) = Some v
      \<and> published_branch v = draft_branch v \<longrightarrow>
      fst (post from_string req w) =
        Inr ((post_form_data req)\<lparr>msg := ''Course is already in published state.''\<rparr>)
      \<and> modulestore (snd (post from_string req w)) = modulestore w)
   \<and> (fst (post from_string req w) = Inr ctx \<and> updated_versions ctx \<noteq> None
        \<and> POST_course_id req' = POST_course_id req \<longrightarrow>
      fst (post from_string req' (snd (post from_string req w))) =
        Inr ((post_form_data req')\<lparr>msg := ''Course is already in published state.''\<rparr>)
      \<and> modulestore (snd (post from_string req' (snd (post from_string req w)))) =
          modulestore (snd (post from_string req w)))"
proof (cases rule: post_cases [where req = req and from_string = from_string and w = w])
  case empty
  then show ?thesis by (auto simp: post_empty post_form_data_simps)
next
  case (invalid s)
  then show ?thesis
    by (auto simp: post_invalid post_form_data_simps get_course_versions_def)
next
  case (not_found s k)
  then show ?thesis
    by (auto simp: post_not_found post_form_data_simps get_course_versions_def
        getBranchVersions_def)
next
  case (old_mongo s k)
  then show ?thesis
    by (auto simp: post_old_mongo post_form_data_simps get_course_versions_def
        getBranchVersions_def)
next
  case (split s k u)
  let ?w' = "snd (post from_string req w)"
  show ?thesis
  proof (intro conjI impI)
    assume a: "bool_str (POST_course_id req)
      \<and> get_course_versions from_string (modulestore w) (POST_course_id req) = Some v
      \<and> published_branch v = draft_branch v"
    with split have "u = v" by (simp add: get_course_versions_def getBranchVersions_def)
    with a split show "fst (post from_string req w) =
        Inr ((post_form_data req)\<lparr>msg := ''Course is already in published state.''\<rparr>)"
      and "modulestore ?w' = modulestore w"
      by (simp_all add: post_split Let_def)
  next
    assume a: "fst (post from_string req w) = Inr ctx \<and> updated_versions ctx \<noteq> None
        \<and> POST_course_id req' = POST_course_id req"
    from a split have applied: "published_branch u \<noteq> draft_branch u"
      "\<not> bool_str (POST_dry_run req)" "draft_branch u \<in> structures (modulestore w)"
      by (auto simp: post_split Let_def post_form_data_simps split: if_splits)
    with split have idx: "course_index (modulestore ?w') (org_course_run k) =
        Some (Split (u\<lparr>published_branch := draft_branch u\<rparr>))"
      by (simp add: post_split Let_def)
    from a split have cid: "POST_course_id req' = Some s" by simp
    from post_split [where req = req' and w = "?w'" and from_string = from_string and s = s
        and k = k and v = "u\<lparr>published_branch := draft_branch u\<rparr>", OF cid split(2) split(3) idx]
    show "fst (post from_string req' ?w') =
        Inr ((post_form_data req')\<lparr>msg := ''Course is already in published state.''\<rparr>)"
      and "modulestore (snd (post from_string req' ?w')) = modulestore ?w'"
      by (simp_all add: Let_def)
  qed
qed

theorem already_published_is_noop_witness:
  "fst (post test_from_string (test_request (Some ''course-v1:org+done+run'') (Some ''on''))
          test_world) =
     Inr ((post_form_data (test_request (Some ''course-v1:org+done+run'') (Some ''on'')))
            \<lparr>msg := ''Course is already in published state.''\<rparr>)
   \<and> modulestore (snd (post test_from_string
         (test_request (Some ''course-v1:org+done+run'') (Some ''on'')) test_world)) = test_store
   \<and> fst (post test_from_string (test_request (Some ''course-v1:org+split+run'') (Some []))
        (snd (post test_from_string (test_request (Some ''course-v1:org+split+run'') None)
           test_world))) =
     Inr ((post_form_data (test_request (Some ''course-v1:org+split+run'') (Some [])))
            \<lparr>msg := ''Course is already in published state.''\<rparr>)"
proof -
  have first: "fst (post test_from_string (test_request (Some ''course-v1:org+split+run'') None)
      test_world) =
    Inr ((post_form_data (test_request (Some ''course-v1:org+split+run'') None))
          \<lparr>current_versions := Some \<lparr>draft_branch = 1, published_branch = 0\<rparr>,
            updated_versions := Some \<lparr>draft_branch = 1, published_branch = 1\<rparr>\<rparr>)"
    by (simp add: post_defs test_defs)
  show ?thesis
    using already_published_is_noop
      [where req = "test_request (Some ''course-v1:org+done+run'') (Some ''on'')"
        and from_string = test_from_string and w = test_world
        and v = "\<lparr>draft_branch = 2, published_branch = 2\<rparr>"]
      already_published_is_noop
      [where req = "test_request (Some ''course-v1:org+split+run'') None"
        and from_string = test_from_string and w = test_world
        and ctx = "(post_form_data (test_request (Some ''course-v1:org+split+run'') None))
          \<lparr>current_versions := Some \<lparr>draft_branch = 1, published_branch = 0\<rparr>,
            updated_versions := Some \<lparr>draft_branch = 1, published_branch = 1\<rparr>\<rparr>"
        and req' = "test_request (Some ''course-v1:org+split+run'') (Some [])"]
      first
    by (simp add: test_defs bool_str_def get_course_versions_def getBranchVersions_def)
qed

text \<open>
  Claim C4. For a course that exists and whose backend cannot move branch pointers, the
  view answers \<^verbatim>\<open>Force publish course does not support old mongo style courses.\<close>,
  whatever the dry-run parameter is. The store is unchanged, and the calls of this
  invocation are the parse, the existence check and the lookup of the course's store:
  the branch versions are not read.
\<close>

theorem old_mongo_rejected_before_version_read:
  assumes "POST_course_id req = Some s" and "s \<noteq> []" and "from_string s = Some k"
    and "has_course (modulestore w) k"
    and "\<not> supportsBranchPointerUpdate (modulestore w) (for_branch k BranchName_draft)"
  shows "post from_string req w =
           (Inr ((post_form_data req)\<lparr>msg :=
              ''Force publish course does not support old mongo style courses.''\<rparr>),
            w\<lparr>calls := calls w @
               [Call_from_string s, Call_has_course k,
                Call_get_modulestore_for_courselike (for_branch k BranchName_draft)]\<rparr>)"
proof -
  from assms(4,5) have "course_index (modulestore w) (org_course_run k) = Some OldMongo"
    by (auto simp: has_course_def supportsBranchPointerUpdate_def for_branch_def
        split: option.splits course_entry.splits)
  with assms(1-3) show ?thesis by (rule post_old_mongo)
qed

theorem old_mongo_rejected_before_version_read_witness:
  "post test_from_string (test_request (Some ''org/mongo/run'') (Some ''on'')) test_world =
     (Inr ((post_form_data (test_request (Some ''org/mongo/run'') (Some ''on'')))\<lparr>msg :=
              ''Force publish course does not support old mongo style courses.''\<rparr>),
      test_world\<lparr>calls :=
               [Call_from_string ''org/mongo/run'',
                Call_has_course \<lparr>org_course_run = ''org/mongo/run'', branch = None\<rparr>,
                Call_get_modulestore_for_courselike
                  \<lparr>org_course_run = ''org/mongo/run'', branch = Some BranchName_draft\<rparr>]\<rparr>)"
  using old_mongo_rejected_before_version_read
    [of "test_request (Some ''org/mongo/run'') (Some ''on'')" "''org/mongo/run''"
      test_from_string "\<lparr>org_course_run = ''org/mongo/run'', branch = None\<rparr>" test_world]
  by (simp add: test_defs has_course_def supportsBranchPointerUpdate_def for_branch_def)

text \<open>
  Claim C5. The empty course id is answered with \<^verbatim>\<open>Please provide course id.\<close>, a
  non-empty text that the parser rejects (such as \<^verbatim>\<open>edx\<close>) with
  \<^verbatim>\<open>Invalid course key.\<close>, and a parsed key that names no course with
  \<^verbatim>\<open>No matching course found.\<close>. In each case the error flag is set and the store is
  unchanged.
\<close>

theorem resolution_failure_messages:
  "(POST_course_id req = Some [] \<longrightarrow>
      post from_string req w =
        (Inr ((post_form_data req)\<lparr>error := True, msg := ''Please provide course id.''\<rparr>), w))
   \<and> (POST_course_id req = Some s \<and> s \<noteq> [] \<and> from_string s = None \<longrightarrow>
      fst (post from_string req w) =
        Inr ((post_form_data req)\<lparr>error := True, msg := ''Invalid course key.''\<rparr>)
      \<and> modulestore (snd (post from_string req w)) = modulestore w)
   \<and> (POST_course_id req = Some s \<and> s \<noteq> [] \<and> from_string s = Some k
        \<and> \<not> has_course (modulestore w) k \<longrightarrow>
      fst (post from_string req w) =
        Inr ((post_form_data req)\<lparr>error := True, msg := ''No matching course found.''\<rparr>)
      \<and> modulestore (snd (post from_string req w)) = modulestore w)"
  by (simp add: post_def validate_course_key_def post_form_data_def init_context_def Let_def
      called_def bool_str_def)

theorem resolution_failure_messages_witness:
  "post test_from_string (test_request (Some []) None) test_world =
     (Inr ((post_form_data (test_request (Some []) None))
        \<lparr>error := True, msg := ''Please provide course id.''\<rparr>), test_world)
   \<and> fst (post test_from_string (test_request (Some ''edx'') None) test_world) =
       Inr ((post_form_data (test_request (Some ''edx'') None))
         \<lparr>error := True, msg := ''Invalid course key.''\<rparr>)
   \<and> modulestore (snd (post test_from_string (test_request (Some ''edx'') None) test_world)) =
       test_store
   \<and> fst (post test_from_string (test_request (Some ''course-v1:e+d+X'') None) test_world) =
       Inr ((post_form_data (test_request (Some ''course-v1:e+d+X'') None))
         \<lparr>error := True, msg := ''No matching course found.''\<rparr>)
   \<and> modulestore (snd (post test_from_string (test_request (Some ''course-v1:e+d+X'') None)
        test_world)) = test_store"
  using resolution_failure_messages
      [of "test_request (Some []) None" test_from_string test_world]
    resolution_failure_messages
      [of "test_request (Some ''edx'') None" test_from_string test_world "''edx''"]
    resolution_failure_messages
      [of "test_request (Some ''course-v1:e+d+X'') None" test_from_string test_world
        "''course-v1:e+d+X''" "\<lparr>org_course_run = ''course-v1:e+d+X'', branch = None\<rparr>"]
  by (simp add: test_defs has_course_def)




text \<open>
  Claim C7. When the comparison found differing versions, the request is no dry run and
  \<^verbatim>\<open>force_publish_course\<close> returns no version map, the view answers
  \<^verbatim>\<open>Could not publish course.\<close>: the context holds the current versions, no updated
  versions, and the error flag is not set.
\<close>

theorem failed_move_reports_could_not_publish:
  assumes "POST_course_id req = Some s" and "s \<noteq> []" and "from_string s = Some k"
    and "getBranchVersions (modulestore w) k = Some v"
    and "draft_branch v \<noteq> published_branch v"
    and "\<not> bool_str (POST_dry_run req)"
    and "fst (force_publish_course (modulestore w) (for_branch k BranchName_draft) (user req)) = None"
  shows "fst (post from_string req w) =
           Inr ((post_form_data req)\<lparr>current_versions := Some v,
                  msg := ''Could not publish course.''\<rparr>)
       \<and> updated_versions ((post_form_data req)\<lparr>current_versions := Some v,
                  msg := ''Could not publish course.''\<rparr>) = None
       \<and> \<not> error ((post_form_data req)\<lparr>current_versions := Some v,
                  msg := ''Could not publish course.''\<rparr>)"
proof -
  from assms(4) have idx: "course_index (modulestore w) (org_course_run k) = Some (Split v)"
    by (auto simp: getBranchVersions_def split: option.splits course_entry.splits)
  with assms(7) have "draft_branch v \<notin> structures (modulestore w)"
    by (auto simp: force_publish_course_def getBranchVersions_def moveBranchPointer_def
        for_branch_def Let_def split: if_splits)
  with assms(1-3,5,6) idx show ?thesis
    by (simp add: post_split Let_def post_form_data_simps)
qed

theorem failed_move_reports_could_not_publish_witness:
  "fst (post test_from_string (test_request (Some ''course-v1:org+gone+run'') None) test_world) =
     Inr ((post_form_data (test_request (Some ''course-v1:org+gone+run'') None))
            \<lparr>current_versions := Some \<lparr>draft_branch = 7, published_branch = 0\<rparr>,
              msg := ''Could not publish course.''\<rparr>)"
  using failed_move_reports_could_not_publish
    [of "test_request (Some ''course-v1:org+gone+run'') None" "''course-v1:org+gone+run''"
      test_from_string "\<lparr>org_course_run = ''course-v1:org+gone+run'', branch = None\<rparr>"
      test_world "\<lparr>draft_branch = 7, published_branch = 0\<rparr>"]
  by (simp add: test_defs bool_str_def getBranchVersions_def force_publish_course_def
      moveBranchPointer_def for_branch_def)

text \<open>
  Claim C9, as stated, fails for the dry run: that outcome puts no text in the message
  field. The context of a dry run has the error flag unset and \<^verbatim>\<open>msg\<close> still empty; what
  it reports is in \<^verbatim>\<open>current_versions\<close>.
\<close>

theorem dry_run_leaves_msg_empty:
  "fst (post test_from_string (test_request (Some ''course-v1:org+split+run'') (Some ''on''))
          test_world) =
     Inr \<lparr>form_data = \<lparr>course_id = Some ''course-v1:org+split+run'', is_dry_run = True\<rparr>,
          error = False,
          msg = [],
          current_versions = Some \<lparr>draft_branch = 1, published_branch = 0\<rparr>,
          updated_versions = None\<rparr>"
  by (simp add: post_defs test_defs)

text \<open>
  Claim C9, amended. The error flag of the rendered context is set exactly when
  \<^verbatim>\<open>validate_course_key\<close> raised. When it returned a key, the flag stays unset and the
  message field holds the text of the outcome for an unsupported backend, an already
  published course and a failed publish, while the dry run leaves the message empty.
\<close>

theorem error_flag_only_for_resolution_failures:
  assumes "fst (post from_string req w) = Inr ctx"
  shows "(error ctx \<longleftrightarrow>
            (\<exists>e. fst (validate_course_key from_string (POST_course_id req) BranchName_draft w) = Inl e))
   \<and> (fst (validate_course_key from_string (POST_course_id req) BranchName_draft w) = Inr key \<longrightarrow>
        (\<not> supportsBranchPointerUpdate (modulestore w) key \<longrightarrow>
           \<not> error ctx \<and>
           msg ctx = ''Force publish course does not support old mongo style courses.'')
      \<and> (get_course_versions from_string (modulestore w) (POST_course_id req) = Some v \<longrightarrow>
           (published_branch v = draft_branch v \<longrightarrow>
              \<not> error ctx \<and> msg ctx = ''Course is already in published state.'')
         \<and> (published_branch v \<noteq> draft_branch v \<and> bool_str (POST_dry_run req) \<longrightarrow>
              \<not> error ctx \<and> msg ctx = [])
         \<and> (published_branch v \<noteq> draft_branch v \<and> \<not> bool_str (POST_dry_run req)
              \<and> fst (force_publish_course (modulestore w) key (user req)) = None \<longrightarrow>
              \<not> error ctx \<and> msg ctx = ''Could not publish course.'')))"
proof (cases rule: post_cases [where req = req and from_string = from_string and w = w])
  case empty
  with assms show ?thesis
    by (auto simp: post_empty validate_course_key_def)
next
  case (invalid s)
  with assms show ?thesis
    by (auto simp: post_invalid validate_course_key_def bool_str_def Let_def)
next
  case (not_found s k)
  with assms show ?thesis
    by (auto simp: post_not_found validate_course_key_def bool_str_def Let_def has_course_def
        called_def)
next
  case (old_mongo s k)
  with assms show ?thesis
    by (auto simp: post_old_mongo validate_course_key_def bool_str_def Let_def has_course_def
        called_def post_form_data_simps get_course_versions_def getBranchVersions_def)
next
  case (split s k u)
  have val: "fst (validate_course_key from_string (POST_course_id req) BranchName_draft w) =
      Inr (for_branch k BranchName_draft)"
    using split by (simp add: validate_course_key_def bool_str_def Let_def has_course_def called_def)
  have sup: "supportsBranchPointerUpdate (modulestore w) (for_branch k BranchName_draft)"
    using split by (simp add: supportsBranchPointerUpdate_def for_branch_def)
  have rd: "get_course_versions from_string (modulestore w) (POST_course_id req) = Some u"
    using split by (simp add: get_course_versions_def getBranchVersions_def)
  have fail: "fst (force_publish_course (modulestore w) (for_branch k BranchName_draft) (user req))
      = None \<longleftrightarrow> draft_branch u \<notin> structures (modulestore w)"
    using split
    by (simp add: force_publish_course_def getBranchVersions_def moveBranchPointer_def
        for_branch_def Let_def)
  from assms split show ?thesis
    unfolding val rd
    using sup fail
    by (auto simp: post_split Let_def post_form_data_simps split: if_splits)
qed

theorem error_flag_only_for_resolution_failures_witness:
  "(fst (validate_course_key test_from_string (Some ''org/mongo/run'') BranchName_draft test_world) =
      Inr \<lparr>org_course_run = ''org/mongo/run'', branch = Some BranchName_draft\<rparr>
    \<and> \<not> supportsBranchPointerUpdate test_store
          \<lparr>org_course_run = ''org/mongo/run'', branch = Some BranchName_draft\<rparr>
    \<and> fst (post test_from_string (test_request (Some ''org/mongo/run'') None) test_world) =
        Inr ((post_form_data (test_request (Some ''org/mongo/run'') None))\<lparr>msg :=
          ''Force publish course does not support old mongo style courses.''\<rparr>))
   \<and> (get_course_versions test_from_string test_store (Some ''course-v1:org+done+run'') =
        Some \<lparr>draft_branch = 2, published_branch = 2\<rparr>
    \<and> fst (post test_from_string (test_request (Some ''course-v1:org+done+run'') None)
          test_world) =
        Inr ((post_form_data (test_request (Some ''course-v1:org+done+run'') None))\<lparr>msg :=
          ''Course is already in published state.''\<rparr>))
   \<and> (get_course_versions test_from_string test_store (Some ''course-v1:org+split+run'') =
        Some \<lparr>draft_branch = 1, published_branch = 0\<rparr>
    \<and> fst (post test_from_string (test_request (Some ''course-v1:org+split+run'') (Some ''on''))
          test_world) =
        Inr ((post_form_data (test_request (Some ''course-v1:org+split+run'') (Some ''on'')))
          \<lparr>current_versions := Some \<lparr>draft_branch = 1, published_branch = 0\<rparr>\<rparr>)
    \<and> msg ((post_form_data (test_request (Some ''course-v1:org+split+run'') (Some ''on'')))
          \<lparr>current_versions := Some \<lparr>draft_branch = 1, published_branch = 0\<rparr>\<rparr>) = [])
   \<and> (get_course_versions test_from_string test_store (Some ''course-v1:org+gone+run'') =
        Some \<lparr>draft_branch = 7, published_branch = 0\<rparr>
    \<and> fst (force_publish_course test_store
          \<lparr>org_course_run = ''course-v1:org+gone+run'', branch = Some BranchName_draft\<rparr>
          ''staff'') = None
    \<and> fst (post test_from_string (test_request (Some ''course-v1:org+gone+run'') None)
          test_world) =
        Inr ((post_form_data (test_request (Some ''course-v1:org+gone+run'') None))
          \<lparr>current_versions := Some \<lparr>draft_branch = 7, published_branch = 0\<rparr>,
            msg := ''Could not publish course.''\<rparr>))
   \<and> (fst (validate_course_key test_from_string (Some ''edx'') BranchName_draft test_world) =
        Inl InvalidKeyError
    \<and> fst (post test_from_string (test_request (Some ''edx'') None) test_world) =
        Inr ((post_form_data (test_request (Some ''edx'') None))
          \<lparr>error := True, msg := ''Invalid course key.''\<rparr>))"
proof -
  let ?mongo = "test_request (Some ''org/mongo/run'') None"
  let ?done = "test_request (Some ''course-v1:org+done+run'') None"
  let ?dry = "test_request (Some ''course-v1:org+split+run'') (Some ''on'')"
  let ?gone = "test_request (Some ''course-v1:org+gone+run'') None"
  let ?edx = "test_request (Some ''edx'') None"
  have r1: "fst (post test_from_string ?mongo test_world) =
      Inr ((post_form_data ?mongo)\<lparr>msg :=
        ''Force publish course does not support old mongo style courses.''\<rparr>)"
    and r2: "fst (post test_from_string ?done test_world) =
      Inr ((post_form_data ?done)\<lparr>msg := ''Course is already in published state.''\<rparr>)"
    and r3: "fst (post test_from_string ?dry test_world) =
      Inr ((post_form_data ?dry)
        \<lparr>current_versions := Some \<lparr>draft_branch = 1, published_branch = 0\<rparr>\<rparr>)"
    and r4: "fst (post test_from_string ?gone test_world) =
      Inr ((post_form_data ?gone)
        \<lparr>current_versions := Some \<lparr>draft_branch = 7, published_branch = 0\<rparr>,
          msg := ''Could not publish course.''\<rparr>)"
    and r5: "fst (post test_from_string ?edx test_world) =
      Inr ((post_form_data ?edx)\<lparr>error := True, msg := ''Invalid course key.''\<rparr>)"
    by (simp_all add: post_defs test_defs)
  note t1 = error_flag_only_for_resolution_failures [OF r1,
      of "\<lparr>org_course_run = ''org/mongo/run'', branch = Some BranchName_draft\<rparr>"
        "\<lparr>draft_branch = 0, published_branch = 0\<rparr>"]
  note t2 = error_flag_only_for_resolution_failures [OF r2,
      of "\<lparr>org_course_run = ''course-v1:org+done+run'', branch = Some BranchName_draft\<rparr>"
        "\<lparr>draft_branch = 2, published_branch = 2\<rparr>"]
  note t3 = error_flag_only_for_resolution_failures [OF r3,
      of "\<lparr>org_course_run = ''course-v1:org+split+run'', branch = Some BranchName_draft\<rparr>"
        "\<lparr>draft_branch = 1, published_branch = 0\<rparr>"]
  note t4 = error_flag_only_for_resolution_failures [OF r4,
      of "\<lparr>org_course_run = ''course-v1:org+gone+run'', branch = Some BranchName_draft\<rparr>"
        "\<lparr>draft_branch = 7, published_branch = 0\<rparr>"]
  note t5 = error_flag_only_for_resolution_failures [OF r5,
      of "\<lparr>org_course_run = ''edx'', branch = None\<rparr>"
        "\<lparr>draft_branch = 0, published_branch = 0\<rparr>"]
  have h: "fst (validate_course_key test_from_string (Some ''org/mongo/run'') BranchName_draft
        test_world) =
      Inr \<lparr>org_course_run = ''org/mongo/run'', branch = Some BranchName_draft\<rparr>"
    "\<not> supportsBranchPointerUpdate test_store
        \<lparr>org_course_run = ''org/mongo/run'', branch = Some BranchName_draft\<rparr>"
    "get_course_versions test_from_string test_store (Some ''course-v1:org+done+run'') =
        Some \<lparr>draft_branch = 2, published_branch = 2\<rparr>"
    "get_course_versions test_from_string test_store (Some ''course-v1:org+split+run'') =
        Some \<lparr>draft_branch = 1, published_branch = 0\<rparr>"
    "get_course_versions test_from_string test_store (Some ''course-v1:org+gone+run'') =
        Some \<lparr>draft_branch = 7, published_branch = 0\<rparr>"
    "fst (force_publish_course test_store
          \<lparr>org_course_run = ''course-v1:org+gone+run'', branch = Some BranchName_draft\<rparr>
          ''staff'') = None"
    "fst (validate_course_key test_from_string (Some ''edx'') BranchName_draft test_world) =
        Inl InvalidKeyError"
    by (simp_all add: post_defs test_defs)
  show ?thesis using r1 r2 r3 r4 r5 t1 t2 t3 t4 t5 h by (simp add: post_form_data_simps)
qed

text \<open>
  What the dry-run parameter selects for a split course whose branch versions differ:
  a truthy value ends the view after the read of the versions, a falsy one goes on to
  the call of \<^verbatim>\<open>force_publish_course\<close>, whose store is the store after the view.
\<close>

lemma post_mode:
  assumes "POST_course_id req = Some s" and "s \<noteq> []" and "from_string s = Some k"
    and "getBranchVersions (modulestore w) k = Some v"
    and "draft_branch v \<noteq> published_branch v"
  shows "(bool_str (POST_dry_run req) \<longrightarrow>
           post from_string req w =
             (Inr ((post_form_data req)\<lparr>current_versions := Some v\<rparr>),
              w\<lparr>calls := calls w @
                 [Call_from_string s, Call_has_course k,
                  Call_get_modulestore_for_courselike (for_branch k BranchName_draft),
                  Call_get_course_versions (Some s)]\<rparr>))
       \<and> (\<not> bool_str (POST_dry_run req) \<longrightarrow>
           calls (snd (post from_string req w)) =
             calls w @
               [Call_from_string s, Call_has_course k,
                Call_get_modulestore_for_courselike (for_branch k BranchName_draft),
                Call_get_course_versions (Some s),
                Call_force_publish_course (for_branch k BranchName_draft) (user req)]
         \<and> modulestore (snd (post from_string req w)) =
             snd (force_publish_course (modulestore w) (for_branch k BranchName_draft) (user req))
         \<and> (draft_branch v \<in> structures (modulestore w) \<longrightarrow>
              fst (post from_string req w) =
                Inr ((post_form_data req)\<lparr>current_versions := Some v,
                       updated_versions := Some (v\<lparr>published_branch := draft_branch v\<rparr>)\<rparr>)
            \<and> get_course_versions from_string (modulestore (snd (post from_string req w)))
                (Some s) = Some (v\<lparr>published_branch := draft_branch v\<rparr>)))"
proof -
  from assms(4) have idx: "course_index (modulestore w) (org_course_run k) = Some (Split v)"
    by (auto simp: getBranchVersions_def split: option.splits course_entry.splits)
  have fp: "snd (force_publish_course (modulestore w) (for_branch k BranchName_draft) (user req)) =
      (if draft_branch v \<notin> structures (modulestore w) then modulestore w
       else (modulestore w)\<lparr>course_index :=
              (course_index (modulestore w))(org_course_run k \<mapsto>
                 Split (v\<lparr>published_branch := draft_branch v\<rparr>))\<rparr>)"
    using idx
    by (simp add: force_publish_course_def getBranchVersions_def moveBranchPointer_def
        set_branch_def for_branch_def Let_def)
  from assms(1-3,5) idx show ?thesis
    by (simp add: post_split Let_def fp get_course_versions_def getBranchVersions_def)
qed

text \<open>
  Claim C10. The dry-run flag the view works with, and stores in the form data, is the
  truthiness of the \<^verbatim>\<open>dry-run\<close> parameter: true for every non-empty string, false for
  the empty string and for an absent parameter. With a non-empty value the store is
  never changed. For a split course whose branch versions differ, a non-empty value
  makes the view stop after the read of the versions and report them, while an absent
  or empty value makes it call \<^verbatim>\<open>force_publish_course\<close>: that call is the last of the
  trace, the store after the view is the store that call returns, and where the draft
  version exists the published pointer has moved.
\<close>

theorem dry_run_is_truthiness_of_parameter:
  "(fst (post from_string req w) = Inr ctx \<longrightarrow>
      is_dry_run (form_data ctx) = (\<exists>t. POST_dry_run req = Some t \<and> t \<noteq> []))
   \<and> ((\<exists>t. POST_dry_run req = Some t \<and> t \<noteq> []) \<longrightarrow>
        modulestore (snd (post from_string req w)) = modulestore w)
   \<and> (POST_course_id req = Some s \<and> s \<noteq> [] \<and> from_string s = Some k
        \<and> getBranchVersions (modulestore w) k = Some v
        \<and> draft_branch v \<noteq> published_branch v \<longrightarrow>
        ((\<exists>t. POST_dry_run req = Some t \<and> t \<noteq> []) \<longrightarrow>
           post from_string req w =
             (Inr ((post_form_data req)\<lparr>current_versions := Some v\<rparr>),
              w\<lparr>calls := calls w @
                 [Call_from_string s, Call_has_course k,
                  Call_get_modulestore_for_courselike (for_branch k BranchName_draft),
                  Call_get_course_versions (Some s)]\<rparr>))
      \<and> (POST_dry_run req = None \<or> POST_dry_run req = Some [] \<longrightarrow>
           calls (snd (post from_string req w)) =
             calls w @
               [Call_from_string s, Call_has_course k,
                Call_get_modulestore_for_courselike (for_branch k BranchName_draft),
                Call_get_course_versions (Some s),
                Call_force_publish_course (for_branch k BranchName_draft) (user req)]
         \<and> modulestore (snd (post from_string req w)) =
             snd (force_publish_course (modulestore w) (for_branch k BranchName_draft) (user req))
         \<and> (draft_branch v \<in> structures (modulestore w) \<longrightarrow>
              fst (post from_string req w) =
                Inr ((post_form_data req)\<lparr>current_versions := Some v,
                       updated_versions := Some (v\<lparr>published_branch := draft_branch v\<rparr>)\<rparr>)
            \<and> get_course_versions from_string (modulestore (snd (post from_string req w)))
                (Some s) = Some (v\<lparr>published_branch := draft_branch v\<rparr>))))"
proof -
  have b: "(\<exists>t. POST_dry_run req = Some t \<and> t \<noteq> []) = bool_str (POST_dry_run req)"
    by (simp add: bool_str_def split: option.splits)
  have c: "(POST_dry_run req = None \<or> POST_dry_run req = Some []) = (\<not> bool_str (POST_dry_run req))"
    by (simp add: bool_str_def split: option.splits)
  have flag: "(fst (post from_string req w) = Inr ctx \<longrightarrow>
      is_dry_run (form_data ctx) = bool_str (POST_dry_run req))
   \<and> (bool_str (POST_dry_run req) \<longrightarrow>
        modulestore (snd (post from_string req w)) = modulestore w)"
  proof (cases rule: post_cases [where req = req and from_string = from_string and w = w])
    case empty
    then show ?thesis by (auto simp: post_empty post_form_data_simps)
  next
    case (invalid s)
    then show ?thesis by (auto simp: post_invalid post_form_data_simps)
  next
    case (not_found s k)
    then show ?thesis by (auto simp: post_not_found post_form_data_simps)
  next
    case (old_mongo s k)
    then show ?thesis by (auto simp: post_old_mongo post_form_data_simps)
  next
    case (split s k v)
    then show ?thesis by (auto simp: post_split Let_def post_form_data_simps)
  qed
  show ?thesis
    unfolding b c
    using flag post_mode [of req s from_string k w v]
    by blast
qed

theorem dry_run_is_truthiness_of_parameter_witness:
  "post test_from_string (test_request (Some ''course-v1:org+split+run'') (Some ''on''))
          test_world =
     (Inr ((post_form_data (test_request (Some ''course-v1:org+split+run'') (Some ''on'')))
        \<lparr>current_versions := Some \<lparr>draft_branch = 1, published_branch = 0\<rparr>\<rparr>),
      test_world\<lparr>calls :=
        [Call_from_string ''course-v1:org+split+run'',
         Call_has_course \<lparr>org_course_run = ''course-v1:org+split+run'', branch = None\<rparr>,
         Call_get_modulestore_for_courselike
           \<lparr>org_course_run = ''course-v1:org+split+run'', branch = Some BranchName_draft\<rparr>,
         Call_get_course_versions (Some ''course-v1:org+split+run'')]\<rparr>)
   \<and> is_dry_run (form_data
        ((post_form_data (test_request (Some ''course-v1:org+split+run'') (Some ''on'')))
           \<lparr>current_versions := Some \<lparr>draft_branch = 1, published_branch = 0\<rparr>\<rparr>))
   \<and> calls (snd (post test_from_string
        (test_request (Some ''course-v1:org+split+run'') None) test_world)) =
        [Call_from_string ''course-v1:org+split+run'',
         Call_has_course \<lparr>org_course_run = ''course-v1:org+split+run'', branch = None\<rparr>,
         Call_get_modulestore_for_courselike
           \<lparr>org_course_run = ''course-v1:org+split+run'', branch = Some BranchName_draft\<rparr>,
         Call_get_course_versions (Some ''course-v1:org+split+run''),
         Call_force_publish_course
           \<lparr>org_course_run = ''course-v1:org+split+run'', branch = Some BranchName_draft\<rparr>
           ''staff'']
   \<and> fst (post test_from_string (test_request (Some ''course-v1:org+split+run'') None)
        test_world) =
       Inr ((post_form_data (test_request (Some ''course-v1:org+split+run'') None))
         \<lparr>current_versions := Some \<lparr>draft_branch = 1, published_branch = 0\<rparr>,
           updated_versions := Some \<lparr>draft_branch = 1, published_branch = 1\<rparr>\<rparr>)
   \<and> \<not> is_dry_run (form_data
        ((post_form_data (test_request (Some ''course-v1:org+split+run'') None))
         \<lparr>current_versions := Some \<lparr>draft_branch = 1, published_branch = 0\<rparr>,
           updated_versions := Some \<lparr>draft_branch = 1, published_branch = 1\<rparr>\<rparr>))
   \<and> get_course_versions test_from_string
        (modulestore (snd (post test_from_string
           (test_request (Some ''course-v1:org+split+run'') None) test_world)))
        (Some ''course-v1:org+split+run'') = Some \<lparr>draft_branch = 1, published_branch = 1\<rparr>
   \<and> get_course_versions test_from_string
        (modulestore (snd (post test_from_string
           (test_request (Some ''course-v1:org+split+run'') (Some [])) test_world)))
        (Some ''course-v1:org+split+run'') = Some \<lparr>draft_branch = 1, published_branch = 1\<rparr>"
proof -
  let ?on = "test_request (Some ''course-v1:org+split+run'') (Some ''on'')"
  let ?absent = "test_request (Some ''course-v1:org+split+run'') None"
  let ?empty = "test_request (Some ''course-v1:org+split+run'') (Some [])"
  let ?k = "\<lparr>org_course_run = ''course-v1:org+split+run'', branch = None\<rparr>"
  let ?v = "\<lparr>draft_branch = 1, published_branch = 0\<rparr>"
  have r1: "fst (post test_from_string ?on test_world) =
      Inr ((post_form_data ?on)\<lparr>current_versions := Some ?v\<rparr>)"
    and r2: "fst (post test_from_string ?absent test_world) =
      Inr ((post_form_data ?absent)\<lparr>current_versions := Some ?v,
        updated_versions := Some \<lparr>draft_branch = 1, published_branch = 1\<rparr>\<rparr>)"
    by (simp_all add: post_defs test_defs)
  have h: "test_from_string ''course-v1:org+split+run'' = Some ?k"
    "getBranchVersions test_store ?k = Some ?v"
    "draft_branch ?v \<in> structures test_store"
    by (simp_all add: test_defs getBranchVersions_def)
  show ?thesis
    using r1 r2 h
      dry_run_is_truthiness_of_parameter [where req = ?on and from_string = test_from_string
        and w = test_world and s = "''course-v1:org+split+run''" and k = ?k and v = ?v
        and ctx = "(post_form_data ?on)\<lparr>current_versions := Some ?v\<rparr>"]
      dry_run_is_truthiness_of_parameter [where req = ?absent and from_string = test_from_string
        and w = test_world and s = "''course-v1:org+split+run''" and k = ?k and v = ?v
        and ctx = "(post_form_data ?absent)\<lparr>current_versions := Some ?v,
          updated_versions := Some \<lparr>draft_branch = 1, published_branch = 1\<rparr>\<rparr>"]
      dry_run_is_truthiness_of_parameter [where req = ?empty and from_string = test_from_string
        and w = test_world and s = "''course-v1:org+split+run''" and k = ?k and v = ?v
        and ctx = "(post_form_data ?empty)\<lparr>current_versions := Some ?v,
          updated_versions := Some \<lparr>draft_branch = 1, published_branch = 1\<rparr>\<rparr>"]
    by (auto simp: test_world_def test_request_def for_branch_def)
qed

end
